theory Spec2Isabelle
  imports Main
begin

section \<open>JavaScript values\<close>

text \<open>
  Strings are byte strings (the UTF-8 form of the JavaScript string). An optional
  field or parameter is an \<open>option\<close>: \<open>None\<close> is \<open>undefined\<close>. JavaScript's truthiness
  test on such a value (\<open>!!s\<close>, \<open>if (s)\<close>) fails for \<open>undefined\<close> and for the empty string.
\<close>

definition truthy :: "string option \<Rightarrow> bool" where
  "truthy s = (case s of None \<Rightarrow> False | Some v \<Rightarrow> v \<noteq> [])"

text \<open>\<open>s || Constants.EMPTY_STRING\<close>.\<close>

definition or_empty :: "string option \<Rightarrow> string" where
  "or_empty s = (case s of None \<Rightarrow> [] | Some v \<Rightarrow> v)"

text \<open>\<open>n || 0\<close> on an optional integer.\<close>

definition or_zero :: "int option \<Rightarrow> int" where
  "or_zero n = (case n of None \<Rightarrow> 0 | Some v \<Rightarrow> v)"

subsection \<open>Numbers\<close>

text \<open>
  A JavaScript number is an IEEE double. The numbers of the handler arise from integers
  (seconds, given by the response, the library state and the clock) by addition and by the
  multiplication with 1000, so a number is an integer-valued double, an infinity or
  \<open>NaN\<close>. \<open>round_to_double\<close> is the double nearest to an integer, ties to the even
  significand of 53 bits, an infinity from \<open>2^1024 - 2^970\<close> on: it is the number that an
  integer literal denotes, and the result of an operation is the rounded exact result.
  Below \<open>2^53\<close> in magnitude (the safe integers) nothing is rounded.
\<close>

datatype js_number = Finite int | PosInfinity | NegInfinity | NaN

function bit_length :: "int \<Rightarrow> nat" where
  "bit_length n = (if n \<le> 0 then 0 else Suc (bit_length (n div 2)))"
  by pat_completeness auto
termination
  by (relation "measure nat") auto

declare bit_length.simps [simp del]

definition round_to_double :: "int \<Rightarrow> js_number" where
  "round_to_double n =
     (let m = \<bar>n\<bar> in
      if m < 9007199254740992 then Finite n
      else
        let e = bit_length m - 53;
            q = m div 2 ^ e;
            r = m mod 2 ^ e;
            rounded = (if 2 ^ e < 2 * r \<or> (2 * r = 2 ^ e \<and> odd q) then q + 1 else q) * 2 ^ e
        in if 2 ^ 1024 \<le> rounded then (if n < 0 then NegInfinity else PosInfinity)
           else Finite (if n < 0 then - rounded else rounded))"


text \<open>\<open>Number(x)\<close> on a stored number: the double nearest to it.\<close>

definition toNumber :: "js_number \<Rightarrow> js_number" where
  "toNumber x = (case x of Finite n \<Rightarrow> round_to_double n | _ \<Rightarrow> x)"

text \<open>Addition and multiplication of doubles, on operands that are doubles.\<close>

fun js_add :: "js_number \<Rightarrow> js_number \<Rightarrow> js_number" where
  "js_add (Finite a) (Finite b) = round_to_double (a + b)"
| "js_add NaN y = NaN"
| "js_add x NaN = NaN"
| "js_add PosInfinity NegInfinity = NaN"
| "js_add NegInfinity PosInfinity = NaN"
| "js_add PosInfinity y = PosInfinity"
| "js_add x PosInfinity = PosInfinity"
| "js_add NegInfinity y = NegInfinity"
| "js_add x NegInfinity = NegInfinity"

fun js_mul :: "js_number \<Rightarrow> js_number \<Rightarrow> js_number" where
  "js_mul (Finite a) (Finite b) = round_to_double (a * b)"
| "js_mul NaN y = NaN"
| "js_mul x NaN = NaN"
| "js_mul (Finite a) PosInfinity =
     (if a = 0 then NaN else if 0 < a then PosInfinity else NegInfinity)"
| "js_mul (Finite a) NegInfinity =
     (if a = 0 then NaN else if 0 < a then NegInfinity else PosInfinity)"
| "js_mul PosInfinity (Finite b) =
     (if b = 0 then NaN else if 0 < b then PosInfinity else NegInfinity)"
| "js_mul NegInfinity (Finite b) =
     (if b = 0 then NaN else if 0 < b then NegInfinity else PosInfinity)"
| "js_mul PosInfinity PosInfinity = PosInfinity"
| "js_mul NegInfinity NegInfinity = PosInfinity"
| "js_mul PosInfinity NegInfinity = NegInfinity"
| "js_mul NegInfinity PosInfinity = NegInfinity"

text \<open>
  Modelled from the spec: \<open>StringUtils.isEmpty\<close> is not part of the sources; a raw field
  is empty when it is missing or the empty string.
\<close>

definition isEmpty :: "string option \<Rightarrow> bool" where
  "isEmpty s = (\<not> truthy s)"

subsection \<open>The builtin \<open>decodeURIComponent\<close>\<close>

text \<open>
  ECMAScript's \<open>Decode\<close> with an empty reserved set: every \<open>%\<close> must be followed by two
  hexadecimal digits, and the escaped bytes from \<open>0x80\<close> on must form well-formed UTF-8
  sequences, each byte of a sequence escaped. Anything else throws \<open>URIError\<close>, here
  \<open>None\<close>. The first pass reads the escapes, the second checks the sequences.
\<close>

definition hexDigit :: "char \<Rightarrow> nat option" where
  "hexDigit c =
     (let n = (of_char c :: nat) in
      if 48 \<le> n \<and> n \<le> 57 then Some (n - 48)
      else if 65 \<le> n \<and> n \<le> 70 then Some (n - 55)
      else if 97 \<le> n \<and> n \<le> 102 then Some (n - 87)
      else None)"

datatype uri_item = Lit char | Esc nat

fun uri_items :: "string \<Rightarrow> uri_item list option" where
  "uri_items [] = Some []"
| "uri_items (c # cs) =
     (if c = CHR ''%'' then
        (case cs of
           h # l # rest \<Rightarrow>
             (case (hexDigit h, hexDigit l) of
                (Some a, Some b) \<Rightarrow> map_option ((#) (Esc (16 * a + b))) (uri_items rest)
              | _ \<Rightarrow> None)
         | _ \<Rightarrow> None)
      else map_option ((#) (Lit c)) (uri_items cs))"

text \<open>The number of continuation bytes a leading byte announces; 0 for a byte that cannot lead.\<close>

definition continuation_count :: "nat \<Rightarrow> nat" where
  "continuation_count b =
     (if 194 \<le> b \<and> b \<le> 223 then 1
      else if 224 \<le> b \<and> b \<le> 239 then 2
      else if 240 \<le> b \<and> b \<le> 244 then 3
      else 0)"

fun escaped_bytes :: "uri_item list \<Rightarrow> nat list option" where
  "escaped_bytes [] = Some []"
| "escaped_bytes (Esc b # xs) = map_option ((#) b) (escaped_bytes xs)"
| "escaped_bytes (Lit c # xs) = None"

definition is_continuation :: "nat \<Rightarrow> bool" where
  "is_continuation k = (128 \<le> k \<and> k \<le> 191)"

text \<open>Well-formed sequences: no overlong form, no surrogate, nothing above U+10FFFF.\<close>

definition well_formed_utf8 :: "nat \<Rightarrow> nat list \<Rightarrow> bool" where
  "well_formed_utf8 b ks =
     (list_all is_continuation ks \<and>
      (case ks of
         [] \<Rightarrow> False
       | k # _ \<Rightarrow>
           (if b = 224 then 160 \<le> k
            else if b = 237 then k \<le> 159
            else if b = 240 then 144 \<le> k
            else if b = 244 then k \<le> 143
            else True)))"

function decode_items :: "uri_item list \<Rightarrow> string option" where
  "decode_items [] = Some []"
| "decode_items (Lit c # xs) = map_option ((#) c) (decode_items xs)"
| "decode_items (Esc b # xs) =
     (if b < 128 then map_option ((#) (char_of b)) (decode_items xs)
      else
        let n = continuation_count b in
        if n = 0 \<or> length xs < n then None
        else
          (case escaped_bytes (take n xs) of
             None \<Rightarrow> None
           | Some ks \<Rightarrow>
               if well_formed_utf8 b ks
               then map_option ((@) (map char_of (b # ks))) (decode_items (drop n xs))
               else None))"
  by pat_completeness auto
termination
  by (relation "measure length") auto

definition decodeURIComponent :: "string \<Rightarrow> string option" where
  "decodeURIComponent s = (case uri_items s of None \<Rightarrow> None | Some xs \<Rightarrow> decode_items xs)"

section \<open>Errors\<close>

text \<open>
  One constructor for each error the response handler raises itself, \<open>URIError\<close> for the
  builtin, and \<open>Propagated\<close> for an error raised inside a collaborator that is not part of
  the sources (named by its code): the handler catches none of them.
\<close>

datatype auth_error =
    StateNotFoundError string
  | StateMismatchError
  | NonceMismatchError
  | InvalidCacheEnvironmentError
  | ClientInfoEmptyError
  | ResourceRequestParametersRequiredError
  | InteractionRequiredAuthError string "string option" "string option"
  | ServerError string "string option" "string option"
  | URIError
  | Propagated string

section \<open>Data\<close>

record ServerAuthorizationCodeResponse =
  state :: "string option"
  error :: "string option"
  error_description :: "string option"
  suberror :: "string option"
  code_client_info :: "string option"

record ServerAuthorizationTokenResponse =
  access_token :: "string option"
  id_token :: "string option"
  refresh_token :: "string option"
  token_type :: "string option"
  scope :: "string option"
  expires_in :: "int option"
  ext_expires_in :: "int option"
  client_info :: "string option"
  foci :: "string option"

record TokenClaims =
  oid :: "string option"
  sub :: "string option"
  tid :: "string option"
  nonce :: "string option"

text \<open>The empty claims object \<open>{}\<close>.\<close>

definition no_claims :: TokenClaims where
  "no_claims = \<lparr>oid = None, sub = None, tid = None, nonce = None\<rparr>"

text \<open>
  Modelled from the spec: the class \<open>AuthToken\<close> is not part of the sources; an
  identity-token object keeps the raw token string and the claims parsed from it.
\<close>

record AuthToken =
  rawToken :: string
  claims :: TokenClaims

record LibraryStateObject =
  ts :: int

record RequestStateObject =
  userRequestState :: string
  libraryState :: LibraryStateObject

text \<open>
  Modelled from the spec: the enumeration \<open>AuthorityType\<close> is declared outside the sources,
  which name only its member \<open>Adfs\<close>; the members are those of the authority descriptor.
\<close>

datatype AuthorityType = Aad | Adfs | B2c | Generic

record Authority =
  authorityType :: AuthorityType
  protocolMode :: string
  tenant :: string

text \<open>
  Modelled from the spec: the entity classes are not part of the sources. An entity stores
  the arguments of its factory, in the factory's order; the access-token entity has the
  fields that result building reads (\<open>secret\<close>, \<open>target\<close>, \<open>expiresOn\<close>, \<open>extendedExpiresOn\<close>,
  \<open>tokenType\<close>), prefixed with \<open>at_\<close> here. The two expirations are kept as the numbers
  the factory is given.
\<close>

datatype IdTokenEntity =
  IdTokenEntity string string string string string "string option"

record AccessTokenEntity =
  at_homeAccountId :: string
  at_environment :: string
  at_secret :: string
  at_clientId :: string
  at_realm :: string
  at_target :: string
  at_expiresOn :: js_number
  at_extendedExpiresOn :: js_number
  at_tokenType :: "string option"
  at_oboAssertion :: "string option"

datatype RefreshTokenEntity =
  RefreshTokenEntity string string string string "string option" "string option"

datatype AppMetadataEntity =
  AppMetadataEntity (app_clientId: string) (app_environment: string) (app_familyId: "string option")

text \<open>The fields of a cache record carry the names \<open>generateCacheRecord\<close> gives its parts.\<close>

record 'acct CacheRecord =
  cachedAccount :: "'acct option"
  cachedIdToken :: "IdTokenEntity option"
  cachedAccessToken :: "AccessTokenEntity option"
  cachedRefreshToken :: "RefreshTokenEntity option"
  cachedAppMetadata :: "AppMetadataEntity option"

text \<open>
  A \<open>Date\<close> is its number of milliseconds since the epoch; \<open>new Date(v)\<close> is invalid when
  \<open>v\<close> is not finite or lies more than \<open>8.64e15\<close> milliseconds from the epoch.
\<close>

datatype Date = Date int | InvalidDate

definition newDate :: "js_number \<Rightarrow> Date" where
  "newDate v =
     (case v of
        Finite t \<Rightarrow> if \<bar>t\<bar> \<le> 8640000000000000 then Date t else InvalidDate
      | _ \<Rightarrow> InvalidDate)"

record 'info AuthenticationResult =
  uniqueId :: string
  tenantId :: string
  scopes :: "string list"
  account :: "'info option"
  idToken :: string
  idTokenClaims :: TokenClaims
  accessToken :: string
  fromCache :: bool
  expiresOn :: "Date option"
  extExpiresOn :: "Date option"
  familyId :: string
  tokenType :: string
  userState :: string

section \<open>Collaborators\<close>

text \<open>
  The classes the handler calls but that are not part of the sources are parameters: the
  error classifier, the client-info and token parsers, the account factories and views, the
  scope set, the clock, the proof-of-possession signer, the cache store and two constants.
  A collaborator that can throw returns \<open>Inl\<close> with the error's code. The account entity,
  its public view, the scope set and the store are type parameters.
\<close>

record ('acct, 'info, 'scopes, 'store) collaborators =
  isInteractionRequiredError :: "string option \<Rightarrow> string option \<Rightarrow> string option \<Rightarrow> bool"
  buildClientInfo :: "string \<Rightarrow> string option"
  extractTokenClaims :: "string \<Rightarrow> string + TokenClaims"
  generateHomeAccountId :: "string \<Rightarrow> AuthorityType \<Rightarrow> AuthToken option \<Rightarrow> string"
  parseRequestState :: "string \<Rightarrow> string + RequestStateObject"
  generateEnvironmentFromAuthority :: "Authority \<Rightarrow> string"
  createAccount :: "string \<Rightarrow> string \<Rightarrow> Authority \<Rightarrow> AuthToken \<Rightarrow> string option \<Rightarrow> string + 'acct"
  createGenericAccount :: "Authority \<Rightarrow> string \<Rightarrow> AuthToken \<Rightarrow> string option \<Rightarrow> 'acct"
  generateAccountKey :: "'acct \<Rightarrow> string"
  getAccountInfo :: "'acct \<Rightarrow> 'info"
  fromString :: "string \<Rightarrow> string + 'scopes"
  newScopeSet :: "string list \<Rightarrow> string + 'scopes"
  printScopes :: "'scopes \<Rightarrow> string"
  asArray :: "'scopes \<Rightarrow> string list"
  nowSeconds :: int
  signPopToken :: "string \<Rightarrow> string \<Rightarrow> string \<Rightarrow> string"
  getAccount :: "'store \<Rightarrow> string \<Rightarrow> 'acct option"
  saveCacheRecord :: "'store \<Rightarrow> 'acct CacheRecord \<Rightarrow> string + 'store"
  POP :: string
  THE_FAMILY_ID :: string

text \<open>\<open>buildClientInfo\<close> returns \<open>Some code\<close> when decoding throws; its value is not used.\<close>

section \<open>Validation of the authorization-code response\<close>

definition validateServerAuthorizationCodeResponse ::
  "('acct, 'info, 'scopes, 'store) collaborators \<Rightarrow> ServerAuthorizationCodeResponse \<Rightarrow> string
     \<Rightarrow> auth_error + unit" where
  "validateServerAuthorizationCodeResponse c serverResponseHash cachedState =
     (if \<not> truthy (state serverResponseHash) \<or> cachedState = [] then
        Inl (if \<not> truthy (state serverResponseHash)
             then StateNotFoundError ''Server State''
             else StateNotFoundError ''Cached State'')
      else
        (case decodeURIComponent (or_empty (state serverResponseHash)) of
           None \<Rightarrow> Inl URIError
         | Some decodedState \<Rightarrow>
             (case decodeURIComponent cachedState of
                None \<Rightarrow> Inl URIError
              | Some decodedCached \<Rightarrow>
                  if decodedState \<noteq> decodedCached then Inl StateMismatchError
                  else if truthy (error serverResponseHash)
                          \<or> truthy (error_description serverResponseHash)
                          \<or> truthy (suberror serverResponseHash) then
                    (if isInteractionRequiredError c (error serverResponseHash)
                          (error_description serverResponseHash) (suberror serverResponseHash)
                     then Inl (InteractionRequiredAuthError (or_empty (error serverResponseHash))
                                 (error_description serverResponseHash) (suberror serverResponseHash))
                     else Inl (ServerError (or_empty (error serverResponseHash))
                                 (error_description serverResponseHash) (suberror serverResponseHash)))
                  else if truthy (code_client_info serverResponseHash) then
                    (case buildClientInfo c (or_empty (code_client_info serverResponseHash)) of
                       Some code \<Rightarrow> Inl (Propagated code)
                     | None \<Rightarrow> Inr ())
                  else Inr ())))"

section \<open>The response handler\<close>

text \<open>
  The handler's fields. The serializable cache and the persistence plugin are present or
  \<open>null\<close>; the plugin's two hooks return nothing (\<open>Promise<void>\<close>), are taken to
  complete, and are recorded as calls. Logging is left out. \<open>validateTokenResponse\<close> is
  not modelled.
\<close>

record 'store ResponseHandler =
  clientId :: string
  cacheStorage :: 'store
  homeAccountIdentifier :: string
  serializableCache :: bool
  persistencePlugin :: bool

text \<open>The calls on the plugin and the store, in the order the handler makes them.\<close>

datatype call =
    CalledBeforeCacheAccess
  | CalledGetAccount string
  | CalledSaveCacheRecord
  | CalledAfterCacheAccess

subsection \<open>Assembling the cache record\<close>

definition generateAccountEntity ::
  "('acct, 'info, 'scopes, 'store) collaborators \<Rightarrow> 'store ResponseHandler
     \<Rightarrow> ServerAuthorizationTokenResponse \<Rightarrow> AuthToken \<Rightarrow> Authority \<Rightarrow> string option
     \<Rightarrow> auth_error + 'acct" where
  "generateAccountEntity c this serverTokenResponse idTokenObj authority oboAssertion =
     (if authorityType authority = Adfs then
        Inr (createGenericAccount c authority (homeAccountIdentifier this) idTokenObj oboAssertion)
      else if isEmpty (client_info serverTokenResponse) \<and> protocolMode authority = ''AAD'' then
        Inl ClientInfoEmptyError
      else if truthy (client_info serverTokenResponse) then
        (case createAccount c (or_empty (client_info serverTokenResponse))
                (homeAccountIdentifier this) authority idTokenObj oboAssertion of
           Inl code \<Rightarrow> Inl (Propagated code)
         | Inr acct \<Rightarrow> Inr acct)
      else
        Inr (createGenericAccount c authority (homeAccountIdentifier this) idTokenObj oboAssertion))"

text \<open>Line 212: the scope set of the access token, the response's scopes, else the request's.\<close>

definition selectScopes ::
  "('acct, 'info, 'scopes, 'store) collaborators \<Rightarrow> ServerAuthorizationTokenResponse
     \<Rightarrow> string list option \<Rightarrow> string + 'scopes" where
  "selectScopes c serverTokenResponse requestScopes =
     (if truthy (scope serverTokenResponse)
      then fromString c (or_empty (scope serverTokenResponse))
      else newScopeSet c (case requestScopes of None \<Rightarrow> [] | Some xs \<Rightarrow> xs))"

definition generateAccessToken ::
  "('acct, 'info, 'scopes, 'store) collaborators \<Rightarrow> 'store ResponseHandler
     \<Rightarrow> ServerAuthorizationTokenResponse \<Rightarrow> Authority \<Rightarrow> string \<Rightarrow> AuthToken option
     \<Rightarrow> LibraryStateObject option \<Rightarrow> string list option \<Rightarrow> string option
     \<Rightarrow> auth_error + AccessTokenEntity option" where
  "generateAccessToken c this serverTokenResponse authority env idTokenObj libState
       requestScopes oboAssertion =
     (if \<not> isEmpty (access_token serverTokenResponse) then
        (case selectScopes c serverTokenResponse requestScopes of
           Inl code \<Rightarrow> Inl (Propagated code)
         | Inr scopeSet \<Rightarrow>
             let currentTime = nowSeconds c;
                 timestamp = round_to_double
                               (case libState of None \<Rightarrow> currentTime | Some l \<Rightarrow> ts l);
                 tokenExpirationSeconds =
                   js_add timestamp
                     (round_to_double (or_zero (expires_in serverTokenResponse)));
                 extendedTokenExpirationSeconds =
                   js_add tokenExpirationSeconds
                     (round_to_double (or_zero (ext_expires_in serverTokenResponse)))
             in Inr (Some \<lparr>at_homeAccountId = homeAccountIdentifier this,
                           at_environment = env,
                           at_secret = or_empty (access_token serverTokenResponse),
                           at_clientId = clientId this,
                           at_realm = (case idTokenObj of
                                         None \<Rightarrow> tenant authority
                                       | Some t \<Rightarrow> or_empty (tid (claims t))),
                           at_target = printScopes c scopeSet,
                           at_expiresOn = tokenExpirationSeconds,
                           at_extendedExpiresOn = extendedTokenExpirationSeconds,
                           at_tokenType = token_type serverTokenResponse,
                           at_oboAssertion = oboAssertion\<rparr>))
      else Inr None)"

text \<open>
  \<open>generateCacheRecord\<close>: the environment, then the identity token with the account, the
  access token (\<open>generateAccessToken\<close> above is this block of the source, lines 207 to
  235; its two sums are additions of doubles), the refresh token and the application
  metadata.
\<close>

definition generateCacheRecord ::
  "('acct, 'info, 'scopes, 'store) collaborators \<Rightarrow> 'store ResponseHandler
     \<Rightarrow> ServerAuthorizationTokenResponse \<Rightarrow> Authority \<Rightarrow> AuthToken option
     \<Rightarrow> LibraryStateObject option \<Rightarrow> string list option \<Rightarrow> string option
     \<Rightarrow> auth_error + 'acct CacheRecord" where
  "generateCacheRecord c this serverTokenResponse authority idTokenObj libState
       requestScopes oboAssertion =
     (let env = generateEnvironmentFromAuthority c authority in
      if isEmpty (Some env) then Inl InvalidCacheEnvironmentError
      else
        (case (case idTokenObj of
                 Some t \<Rightarrow>
                   if \<not> isEmpty (id_token serverTokenResponse) then
                     (case generateAccountEntity c this serverTokenResponse t authority
                             oboAssertion of
                        Inl e \<Rightarrow> Inl e
                      | Inr acct \<Rightarrow>
                          Inr (Some (IdTokenEntity (homeAccountIdentifier this) env
                                       (or_empty (id_token serverTokenResponse)) (clientId this)
                                       (or_empty (tid (claims t))) oboAssertion),
                               Some acct))
                   else Inr (None, None)
               | None \<Rightarrow> Inr (None, None)) of
           Inl e \<Rightarrow> Inl e
         | Inr (idTokenEntity, accountEntity) \<Rightarrow>
             (case generateAccessToken c this serverTokenResponse authority env idTokenObj
                     libState requestScopes oboAssertion of
                Inl e \<Rightarrow> Inl e
              | Inr accessTokenEntity \<Rightarrow>
                  Inr \<lparr>cachedAccount = accountEntity,
                       cachedIdToken = idTokenEntity,
                       cachedAccessToken = accessTokenEntity,
                       cachedRefreshToken =
                         (if \<not> isEmpty (refresh_token serverTokenResponse)
                          then Some (RefreshTokenEntity (homeAccountIdentifier this) env
                                       (or_empty (refresh_token serverTokenResponse))
                                       (clientId this) (foci serverTokenResponse) oboAssertion)
                          else None),
                       cachedAppMetadata =
                         (if \<not> isEmpty (foci serverTokenResponse)
                          then Some (AppMetadataEntity (clientId this) env
                                       (foci serverTokenResponse))
                          else None)\<rparr>)))"

subsection \<open>Building the authentication result\<close>

text \<open>
  Lines 295 to 314: the access token, the scopes and the two expirations come from the
  access-token entity; without one they keep their initial values.
\<close>

definition accessTokenPart ::
  "('acct, 'info, 'scopes, 'store) collaborators \<Rightarrow> 'acct CacheRecord \<Rightarrow> string option
     \<Rightarrow> string option \<Rightarrow> auth_error + string \<times> string list \<times> Date option \<times> Date option" where
  "accessTokenPart c cacheRecord resourceRequestMethod resourceRequestUri =
     (case cachedAccessToken cacheRecord of
        None \<Rightarrow> Inr ([], [], None, None)
      | Some at \<Rightarrow>
          (case (if at_tokenType at = Some (POP c) then
                   (if \<not> truthy resourceRequestMethod \<or> \<not> truthy resourceRequestUri
                    then Inl ResourceRequestParametersRequiredError
                    else Inr (signPopToken c (at_secret at) (or_empty resourceRequestMethod)
                                (or_empty resourceRequestUri)))
                 else Inr (at_secret at)) of
             Inl e \<Rightarrow> Inl e
           | Inr token \<Rightarrow>
               (case fromString c (at_target at) of
                  Inl code \<Rightarrow> Inl (Propagated code)
                | Inr scopeSet \<Rightarrow>
                    Inr (token, asArray c scopeSet,
                         Some (newDate (js_mul (toNumber (at_expiresOn at)) (Finite 1000))),
                         Some (newDate (js_mul (toNumber (at_extendedExpiresOn at))
                                          (Finite 1000)))))))"

definition generateAuthenticationResult ::
  "('acct, 'info, 'scopes, 'store) collaborators \<Rightarrow> 'acct CacheRecord \<Rightarrow> bool
     \<Rightarrow> AuthToken option \<Rightarrow> RequestStateObject option \<Rightarrow> string option \<Rightarrow> string option
     \<Rightarrow> auth_error + 'info AuthenticationResult" where
  "generateAuthenticationResult c cacheRecord fromTokenCache idTokenObj requestState
       resourceRequestMethod resourceRequestUri =
     (case accessTokenPart c cacheRecord resourceRequestMethod resourceRequestUri of
        Inl e \<Rightarrow> Inl e
      | Inr (token, scopeArray, expires, extExpires) \<Rightarrow>
          Inr \<lparr>uniqueId =
                 (case idTokenObj of
                    None \<Rightarrow> []
                  | Some t \<Rightarrow>
                      if truthy (oid (claims t)) then or_empty (oid (claims t))
                      else or_empty (sub (claims t))),
               tenantId = (case idTokenObj of None \<Rightarrow> [] | Some t \<Rightarrow> or_empty (tid (claims t))),
               scopes = scopeArray,
               account = map_option (getAccountInfo c) (cachedAccount cacheRecord),
               idToken = (case idTokenObj of None \<Rightarrow> [] | Some t \<Rightarrow> rawToken t),
               idTokenClaims = (case idTokenObj of None \<Rightarrow> no_claims | Some t \<Rightarrow> claims t),
               accessToken = token,
               fromCache = fromTokenCache,
               expiresOn = expires,
               extExpiresOn = extExpires,
               familyId =
                 (case cachedAppMetadata cacheRecord of
                    None \<Rightarrow> []
                  | Some m \<Rightarrow>
                      if app_familyId m = Some (THE_FAMILY_ID c) then THE_FAMILY_ID c else []),
               tokenType =
                 (case cachedAccessToken cacheRecord of
                    None \<Rightarrow> []
                  | Some at \<Rightarrow> or_empty (at_tokenType at)),
               userState =
                 (case requestState of None \<Rightarrow> [] | Some r \<Rightarrow> userRequestState r)\<rparr>)"

subsection \<open>Handling the token response\<close>

text \<open>
  Lines 119 to 130: the identity-token object, whose claims the external parser extracts
  from the raw token, and the nonce check.
\<close>

definition createIdTokenObj ::
  "('acct, 'info, 'scopes, 'store) collaborators \<Rightarrow> ServerAuthorizationTokenResponse
     \<Rightarrow> string option \<Rightarrow> auth_error + AuthToken option" where
  "createIdTokenObj c serverTokenResponse cachedNonce =
     (if truthy (id_token serverTokenResponse) then
        (case extractTokenClaims c (or_empty (id_token serverTokenResponse)) of
           Inl code \<Rightarrow> Inl (Propagated code)
         | Inr parsed \<Rightarrow>
             if truthy cachedNonce \<and> nonce parsed \<noteq> cachedNonce then Inl NonceMismatchError
             else Inr (Some \<lparr>rawToken = or_empty (id_token serverTokenResponse),
                              claims = parsed\<rparr>))
      else Inr None)"

text \<open>
  Lines 136 to 139: the request state object, parsed from the cached state when one was
  given.
\<close>

definition parseCachedState ::
  "('acct, 'info, 'scopes, 'store) collaborators \<Rightarrow> string option
     \<Rightarrow> auth_error + RequestStateObject option" where
  "parseCachedState c cachedState =
     (if truthy cachedState then
        (case parseRequestState c (or_empty cachedState) of
           Inl code \<Rightarrow> Inl (Propagated code)
         | Inr requestStateObj \<Rightarrow> Inr (Some requestStateObj))
      else Inr None)"

text \<open>
  Lines 142 to 168: the \<open>try\<close>/\<open>finally\<close> block around the store. It ends by returning
  \<open>null\<close> (\<open>NoOp\<close>), by the store's error, or by falling through to result building
  (\<open>Committed\<close>). A failed write leaves the store as it was. The \<open>finally\<close> branch runs
  on each of the three, and \<open>cacheContext\<close> is set exactly when the before-access hook
  was called.
\<close>

datatype commit_result = NoOp | Committed

definition commitCacheRecord ::
  "('acct, 'info, 'scopes, 'store) collaborators \<Rightarrow> 'store ResponseHandler \<Rightarrow> 'acct CacheRecord
     \<Rightarrow> bool option \<Rightarrow> (auth_error + commit_result) \<times> 'store ResponseHandler \<times> call list" where
  "commitCacheRecord c this cacheRecord handlingRefreshTokenResponse =
     (let cacheContext = (persistencePlugin this \<and> serializableCache this);
          before = (if cacheContext then [CalledBeforeCacheAccess] else []);
          after = (if persistencePlugin this \<and> serializableCache this \<and> cacheContext
                   then [CalledAfterCacheAccess] else []);
          guard =
            (case (if handlingRefreshTokenResponse = Some True
                   then cachedAccount cacheRecord else None) of
               None \<Rightarrow> ([], True)
             | Some acct \<Rightarrow>
                 ([CalledGetAccount (generateAccountKey c acct)],
                  getAccount c (cacheStorage this) (generateAccountKey c acct) \<noteq> None))
      in
        if \<not> snd guard then (Inr NoOp, this, before @ fst guard @ after)
        else
          (case saveCacheRecord c (cacheStorage this) cacheRecord of
             Inl code \<Rightarrow>
               (Inl (Propagated code), this,
                before @ fst guard @ [CalledSaveCacheRecord] @ after)
           | Inr written \<Rightarrow>
               (Inr Committed, this\<lparr>cacheStorage := written\<rparr>,
                before @ fst guard @ [CalledSaveCacheRecord] @ after)))"

definition handleServerTokenResponse ::
  "('acct, 'info, 'scopes, 'store) collaborators \<Rightarrow> 'store ResponseHandler
     \<Rightarrow> ServerAuthorizationTokenResponse \<Rightarrow> Authority \<Rightarrow> string option \<Rightarrow> string option
     \<Rightarrow> string option \<Rightarrow> string option \<Rightarrow> string list option \<Rightarrow> string option \<Rightarrow> bool option
     \<Rightarrow> (auth_error + 'info AuthenticationResult option) \<times> 'store ResponseHandler \<times> call list" where
  "handleServerTokenResponse c this serverTokenResponse authority resourceRequestMethod
       resourceRequestUri cachedNonce cachedState requestScopes oboAssertion
       handlingRefreshTokenResponse =
     (case createIdTokenObj c serverTokenResponse cachedNonce of
        Inl e \<Rightarrow> (Inl e, this, [])
      | Inr idTokenObj \<Rightarrow>
          let this1 = this\<lparr>homeAccountIdentifier :=
                        generateHomeAccountId c (or_empty (client_info serverTokenResponse))
                          (authorityType authority) idTokenObj\<rparr>
          in
            (case parseCachedState c cachedState of
               Inl e \<Rightarrow> (Inl e, this1, [])
             | Inr requestStateObj \<Rightarrow>
                 (case generateCacheRecord c this1 serverTokenResponse authority idTokenObj
                         (map_option libraryState requestStateObj) requestScopes oboAssertion of
                    Inl e \<Rightarrow> (Inl e, this1, [])
                  | Inr cacheRecord \<Rightarrow>
                      (case commitCacheRecord c this1 cacheRecord handlingRefreshTokenResponse of
                         (Inl e, this2, calls) \<Rightarrow> (Inl e, this2, calls)
                       | (Inr NoOp, this2, calls) \<Rightarrow> (Inr None, this2, calls)
                       | (Inr Committed, this2, calls) \<Rightarrow>
                           (case generateAuthenticationResult c cacheRecord False idTokenObj
                                   requestStateObj resourceRequestMethod resourceRequestUri of
                              Inl e \<Rightarrow> (Inl e, this2, calls)
                            | Inr result \<Rightarrow> (Inr (Some result), this2, calls))))))"

section \<open>A concrete instance of the collaborators\<close>

text \<open>
  An instance on which the handler can be run: an account is its home account identifier,
  a scope set is the ordered list of its scopes, parsed from and printed to a
  space-delimited string, and the store is a write permission with the keys of the
  accounts it holds. It serves to evaluate the handler on examples.
\<close>

fun split_spaces :: "string \<Rightarrow> string list" where
  "split_spaces [] = [[]]"
| "split_spaces (c # cs) =
     (if c = CHR '' '' then [] # split_spaces cs
      else (case split_spaces cs of [] \<Rightarrow> [[c]] | w # ws \<Rightarrow> (c # w) # ws))"

fun join_spaces :: "string list \<Rightarrow> string" where
  "join_spaces [] = []"
| "join_spaces [w] = w"
| "join_spaces (w # v # ws) = w @ CHR '' '' # join_spaces (v # ws)"

definition example_claims :: "string \<Rightarrow> TokenClaims" where
  "example_claims raw =
     \<lparr>oid = Some ''oid-1'', sub = Some ''sub-1'', tid = Some ''tenant-1'',
      nonce = (if raw = ''token.without.nonce'' then None else Some ''nonce-1'')\<rparr>"

definition example_collaborators ::
  "(string, string, string list, bool \<times> string list) collaborators" where
  "example_collaborators =
     \<lparr>isInteractionRequiredError = (\<lambda>e d s. e = Some ''interaction_required''),
      buildClientInfo = (\<lambda>s. None),
      extractTokenClaims = (\<lambda>raw. Inr (example_claims raw)),
      generateHomeAccountId = (\<lambda>info t tok. ''uid.utid''),
      parseRequestState =
        (\<lambda>s. Inr \<lparr>userRequestState = s, libraryState = \<lparr>ts = 1000\<rparr>\<rparr>),
      generateEnvironmentFromAuthority = (\<lambda>a. ''login.example.com''),
      createAccount = (\<lambda>info home a tok obo. Inr home),
      createGenericAccount = (\<lambda>a home tok obo. home),
      generateAccountKey = (\<lambda>acct. acct),
      getAccountInfo = (\<lambda>acct. acct),
      fromString = (\<lambda>s. Inr (split_spaces s)),
      newScopeSet = (\<lambda>xs. Inr xs),
      printScopes = join_spaces,
      asArray = (\<lambda>xs. xs),
      nowSeconds = 5000,
      signPopToken = (\<lambda>secret m u. ''signed '' @ m @ '' '' @ u @ '' '' @ secret),
      getAccount = (\<lambda>st key. if key \<in> set (snd st) then Some key else None),
      saveCacheRecord =
        (\<lambda>st r. if fst st
                then Inr (fst st, (case cachedAccount r of None \<Rightarrow> [] | Some a \<Rightarrow> [a]) @ snd st)
                else Inl ''store_write_failed''),
      POP = ''pop'',
      THE_FAMILY_ID = ''1''\<rparr>"

definition example_handler :: "bool \<Rightarrow> bool \<Rightarrow> string list \<Rightarrow> (bool \<times> string list) ResponseHandler" where
  "example_handler plugin writable keys =
     \<lparr>clientId = ''client-1'', cacheStorage = (writable, keys), homeAccountIdentifier = [],
      serializableCache = plugin, persistencePlugin = plugin\<rparr>"

definition example_authority :: "AuthorityType \<Rightarrow> string \<Rightarrow> Authority" where
  "example_authority t mode = \<lparr>authorityType = t, protocolMode = mode, tenant = ''tenant-0''\<rparr>"

definition example_response :: "string option \<Rightarrow> string option \<Rightarrow> ServerAuthorizationTokenResponse" where
  "example_response idt tt =
     \<lparr>access_token = Some ''secret-at'', id_token = idt, refresh_token = Some ''secret-rt'',
      token_type = tt, scope = Some ''user.read mail.read'', expires_in = Some 3600,
      ext_expires_in = Some 600, client_info = Some ''client-info'', foci = Some ''1''\<rparr>"

definition example_pop_record :: "string CacheRecord" where
  "example_pop_record =
     \<lparr>cachedAccount = None, cachedIdToken = None,
      cachedAccessToken =
        Some \<lparr>at_homeAccountId = ''uid.utid'', at_environment = ''login.example.com'',
               at_secret = ''secret-at'', at_clientId = ''client-1'',
               at_realm = ''tenant-0'', at_target = ''user.read'',
               at_expiresOn = Finite 4600, at_extendedExpiresOn = Finite 5200,
               at_tokenType = Some ''pop'', at_oboAssertion = None\<rparr>,
      cachedRefreshToken = None, cachedAppMetadata = None\<rparr>"

text \<open>The instance with a signer that hands back the secret it is given.\<close>

definition echo_collaborators ::
  "(string, string, string list, bool \<times> string list) collaborators" where
  "echo_collaborators = example_collaborators\<lparr>signPopToken := (\<lambda>secret m u. secret)\<rparr>"

section \<open>The fields of the instance\<close>

lemma example_collaborators_fields:
  "POP example_collaborators = ''pop''"
  "THE_FAMILY_ID example_collaborators = ''1''"
  "nowSeconds example_collaborators = 5000"
  "signPopToken example_collaborators secret m u = ''signed '' @ m @ '' '' @ u @ '' '' @ secret"
  "fromString example_collaborators s = Inr (split_spaces s)"
  "newScopeSet example_collaborators xs = Inr xs"
  "printScopes example_collaborators xs = join_spaces xs"
  "asArray example_collaborators xs = xs"
  "generateAccountKey example_collaborators acct = acct"
  "getAccount example_collaborators st key = (if key \<in> set (snd st) then Some key else None)"
  "extractTokenClaims example_collaborators raw = Inr (example_claims raw)"
  by (simp_all add: example_collaborators_def)

section \<open>Rounding\<close>

lemma round_to_double_safe: "\<bar>n\<bar> < 9007199254740992 \<Longrightarrow> round_to_double n = Finite n"
  by (simp add: round_to_double_def)



section \<open>Validation of the authorization-code response: properties\<close>

lemma decode_plain_a: "decodeURIComponent ''a'' = Some ''a''"
  by (simp add: decodeURIComponent_def)

lemma decode_plain_b: "decodeURIComponent ''b'' = Some ''b''"
  by (simp add: decodeURIComponent_def)

lemma decode_escape: "decodeURIComponent ''%61'' = Some ''a''"
  by code_simp

text \<open>
  C9. When the response's state is missing or empty, validation fails with the
  state-not-found error naming the server state; when only the cached state is empty, with
  the one naming the cached state. The state-mismatch error is raised exactly when both
  sides are non-empty, both URL-decode, and the decoded strings differ.
\<close>

theorem state_missing_precedes_mismatch:
  "(\<not> truthy (state r) \<longrightarrow>
      validateServerAuthorizationCodeResponse c r cachedState
        = Inl (StateNotFoundError ''Server State'')) \<and>
   (truthy (state r) \<and> cachedState = [] \<longrightarrow>
      validateServerAuthorizationCodeResponse c r cachedState
        = Inl (StateNotFoundError ''Cached State'')) \<and>
   ((validateServerAuthorizationCodeResponse c r cachedState = Inl StateMismatchError) =
      (truthy (state r) \<and> cachedState \<noteq> [] \<and>
       (\<exists>a b. decodeURIComponent (or_empty (state r)) = Some a \<and>
              decodeURIComponent cachedState = Some b \<and> a \<noteq> b)))"
  by (auto simp: validateServerAuthorizationCodeResponse_def split: option.splits)

theorem state_missing_precedes_mismatch_witness:
  "validateServerAuthorizationCodeResponse example_collaborators
     \<lparr>state = Some [], error = None, error_description = None, suberror = None,
      code_client_info = None\<rparr> ''b'' = Inl (StateNotFoundError ''Server State'') \<and>
   validateServerAuthorizationCodeResponse example_collaborators
     \<lparr>state = Some ''a'', error = None, error_description = None, suberror = None,
      code_client_info = None\<rparr> [] = Inl (StateNotFoundError ''Cached State'') \<and>
   validateServerAuthorizationCodeResponse example_collaborators
     \<lparr>state = Some ''a'', error = None, error_description = None, suberror = None,
      code_client_info = None\<rparr> ''b'' = Inl StateMismatchError"
  using
    state_missing_precedes_mismatch [of "\<lparr>state = Some [], error = None,
      error_description = None, suberror = None, code_client_info = None\<rparr>"
      example_collaborators "''b''"]
    state_missing_precedes_mismatch [of "\<lparr>state = Some ''a'', error = None,
      error_description = None, suberror = None, code_client_info = None\<rparr>"
      example_collaborators "[]"]
    state_missing_precedes_mismatch [of "\<lparr>state = Some ''a'', error = None,
      error_description = None, suberror = None, code_client_info = None\<rparr>"
      example_collaborators "''b''"]
  by (simp add: truthy_def or_empty_def decode_plain_a decode_plain_b)

text \<open>
  C3, as stated, fails: with both states present and different, a response that carries
  an error is rejected for the state mismatch, not with the classified error.
\<close>

theorem error_fields_before_state_comparison_counterexample:
  "truthy (state \<lparr>state = Some ''a'', error = Some ''access_denied'', error_description = None,
             suberror = None, code_client_info = None\<rparr>) \<and>
   ''b'' \<noteq> [] \<and>
   truthy (error \<lparr>state = Some ''a'', error = Some ''access_denied'', error_description = None,
             suberror = None, code_client_info = None\<rparr>) \<and>
   validateServerAuthorizationCodeResponse example_collaborators
     \<lparr>state = Some ''a'', error = Some ''access_denied'', error_description = None,
      suberror = None, code_client_info = None\<rparr> ''b'' = Inl StateMismatchError"
  by (simp add: validateServerAuthorizationCodeResponse_def truthy_def or_empty_def
        decode_plain_a decode_plain_b)

text \<open>
  C3, amended. When both states are present and URL-decode, and the response carries
  \<open>error\<close>, \<open>error_description\<close> or \<open>suberror\<close>, validation fails with the state mismatch
  if the decoded states differ, and with the classified error (interaction required, else
  server error) only if they are equal: the error fields are inspected after the state
  comparison.
\<close>

theorem error_fields_after_state_comparison:
  assumes "truthy (state r)" and "cachedState \<noteq> []"
    and "decodeURIComponent (or_empty (state r)) = Some a"
    and "decodeURIComponent cachedState = Some b"
    and "truthy (error r) \<or> truthy (error_description r) \<or> truthy (suberror r)"
  shows "validateServerAuthorizationCodeResponse c r cachedState =
           Inl (if a \<noteq> b then StateMismatchError
                else if isInteractionRequiredError c (error r) (error_description r) (suberror r)
                then InteractionRequiredAuthError (or_empty (error r)) (error_description r)
                       (suberror r)
                else ServerError (or_empty (error r)) (error_description r) (suberror r))"
  using assms by (auto simp: validateServerAuthorizationCodeResponse_def)

theorem error_fields_after_state_comparison_witness:
  "validateServerAuthorizationCodeResponse example_collaborators
     \<lparr>state = Some ''%61'', error = Some ''interaction_required'', error_description = None,
      suberror = None, code_client_info = None\<rparr> ''a''
     = Inl (InteractionRequiredAuthError ''interaction_required'' None None) \<and>
   validateServerAuthorizationCodeResponse example_collaborators
     \<lparr>state = Some ''a'', error = Some ''access_denied'', error_description = None,
      suberror = None, code_client_info = None\<rparr> ''a''
     = Inl (ServerError ''access_denied'' None None) \<and>
   validateServerAuthorizationCodeResponse example_collaborators
     \<lparr>state = Some ''b'', error = Some ''interaction_required'', error_description = None,
      suberror = None, code_client_info = None\<rparr> ''a''
     = Inl StateMismatchError"
  using
    error_fields_after_state_comparison [of "\<lparr>state = Some ''b'',
      error = Some ''interaction_required'', error_description = None, suberror = None,
      code_client_info = None\<rparr>" "''a''" "''b''" "''a''" example_collaborators]
    error_fields_after_state_comparison [of "\<lparr>state = Some ''%61'',
      error = Some ''interaction_required'', error_description = None, suberror = None,
      code_client_info = None\<rparr>" "''a''" "''a''" "''a''" example_collaborators]
    error_fields_after_state_comparison [of "\<lparr>state = Some ''a'',
      error = Some ''access_denied'', error_description = None, suberror = None,
      code_client_info = None\<rparr>" "''a''" "''a''" "''a''" example_collaborators]
  by (simp add: truthy_def or_empty_def decode_plain_a decode_plain_b decode_escape
        example_collaborators_def)

section \<open>Account derivation\<close>

text \<open>
  C5, as stated, fails: an authority of type AAD whose protocol mode is not \<open>AAD\<close> and
  a response without \<open>client_info\<close> give a generic account, not the client-info error.
\<close>

theorem account_derivation_gate_counterexample:
  "authorityType (example_authority Aad ''OIDC'') = Aad \<and>
   isEmpty (client_info ((example_response (Some ''a.b.c'') None)\<lparr>client_info := None\<rparr>)) \<and>
   generateAccountEntity example_collaborators
     ((example_handler False True [])\<lparr>homeAccountIdentifier := ''uid.utid''\<rparr>)
     ((example_response (Some ''a.b.c'') None)\<lparr>client_info := None\<rparr>)
     \<lparr>rawToken = ''a.b.c'', claims = example_claims ''a.b.c''\<rparr>
     (example_authority Aad ''OIDC'') None = Inr ''uid.utid''"
  by (simp add: generateAccountEntity_def example_authority_def example_response_def
        example_handler_def example_collaborators_def isEmpty_def truthy_def)

text \<open>
  C5, amended. Account derivation branches on the authority type and then on the protocol
  mode. With an ADFS authority it succeeds with the generic account built from the claims,
  whatever \<open>client_info\<close> is. With any other authority type: an empty \<open>client_info\<close> fails
  with the client-info error when the protocol mode is \<open>AAD\<close> and gives the generic
  account in any other protocol mode; a non-empty \<open>client_info\<close> gives the account that
  the factory derives from it and the claims (the factory's decoding error propagates).
\<close>

theorem account_derivation_branches:
  "(authorityType authority = Adfs \<longrightarrow>
      generateAccountEntity c this r t authority obo
        = Inr (createGenericAccount c authority (homeAccountIdentifier this) t obo)) \<and>
   (authorityType authority \<noteq> Adfs \<and> isEmpty (client_info r)
      \<and> protocolMode authority = ''AAD'' \<longrightarrow>
      generateAccountEntity c this r t authority obo = Inl ClientInfoEmptyError) \<and>
   (authorityType authority \<noteq> Adfs \<and> isEmpty (client_info r)
      \<and> protocolMode authority \<noteq> ''AAD'' \<longrightarrow>
      generateAccountEntity c this r t authority obo
        = Inr (createGenericAccount c authority (homeAccountIdentifier this) t obo)) \<and>
   (authorityType authority \<noteq> Adfs \<and> \<not> isEmpty (client_info r) \<longrightarrow>
      generateAccountEntity c this r t authority obo
        = (case createAccount c (or_empty (client_info r)) (homeAccountIdentifier this)
                  authority t obo of
             Inl code \<Rightarrow> Inl (Propagated code)
           | Inr acct \<Rightarrow> Inr acct))"
  by (simp add: generateAccountEntity_def isEmpty_def)

theorem account_derivation_branches_witness:
  "generateAccountEntity example_collaborators
     ((example_handler False True [])\<lparr>homeAccountIdentifier := ''uid.utid''\<rparr>)
     ((example_response (Some ''a.b.c'') None)\<lparr>client_info := None\<rparr>)
     \<lparr>rawToken = ''a.b.c'', claims = example_claims ''a.b.c''\<rparr>
     (example_authority Adfs ''AAD'') None = Inr ''uid.utid'' \<and>
   generateAccountEntity example_collaborators
     ((example_handler False True [])\<lparr>homeAccountIdentifier := ''uid.utid''\<rparr>)
     ((example_response (Some ''a.b.c'') None)\<lparr>client_info := None\<rparr>)
     \<lparr>rawToken = ''a.b.c'', claims = example_claims ''a.b.c''\<rparr>
     (example_authority B2c ''AAD'') None = Inl ClientInfoEmptyError \<and>
   generateAccountEntity example_collaborators
     ((example_handler False True [])\<lparr>homeAccountIdentifier := ''uid.utid''\<rparr>)
     ((example_response (Some ''a.b.c'') None)\<lparr>client_info := None\<rparr>)
     \<lparr>rawToken = ''a.b.c'', claims = example_claims ''a.b.c''\<rparr>
     (example_authority Generic ''OIDC'') None = Inr ''uid.utid'' \<and>
   generateAccountEntity example_collaborators
     ((example_handler False True [])\<lparr>homeAccountIdentifier := ''uid.utid''\<rparr>)
     (example_response (Some ''a.b.c'') None)
     \<lparr>rawToken = ''a.b.c'', claims = example_claims ''a.b.c''\<rparr>
     (example_authority Aad ''AAD'') None = Inr ''uid.utid''"
  using
    account_derivation_branches [where c = example_collaborators
      and this = "(example_handler False True [])\<lparr>homeAccountIdentifier := ''uid.utid''\<rparr>"
      and r = "(example_response (Some ''a.b.c'') None)\<lparr>client_info := None\<rparr>"
      and t = "\<lparr>rawToken = ''a.b.c'', claims = example_claims ''a.b.c''\<rparr>"
      and authority = "example_authority Adfs ''AAD''" and obo = None]
    account_derivation_branches [where c = example_collaborators
      and this = "(example_handler False True [])\<lparr>homeAccountIdentifier := ''uid.utid''\<rparr>"
      and r = "(example_response (Some ''a.b.c'') None)\<lparr>client_info := None\<rparr>"
      and t = "\<lparr>rawToken = ''a.b.c'', claims = example_claims ''a.b.c''\<rparr>"
      and authority = "example_authority B2c ''AAD''" and obo = None]
    account_derivation_branches [where c = example_collaborators
      and this = "(example_handler False True [])\<lparr>homeAccountIdentifier := ''uid.utid''\<rparr>"
      and r = "(example_response (Some ''a.b.c'') None)\<lparr>client_info := None\<rparr>"
      and t = "\<lparr>rawToken = ''a.b.c'', claims = example_claims ''a.b.c''\<rparr>"
      and authority = "example_authority Generic ''OIDC''" and obo = None]
    account_derivation_branches [where c = example_collaborators
      and this = "(example_handler False True [])\<lparr>homeAccountIdentifier := ''uid.utid''\<rparr>"
      and r = "example_response (Some ''a.b.c'') None"
      and t = "\<lparr>rawToken = ''a.b.c'', claims = example_claims ''a.b.c''\<rparr>"
      and authority = "example_authority Aad ''AAD''" and obo = None]
  by (simp add: example_authority_def example_response_def
        example_handler_def example_collaborators_def isEmpty_def truthy_def or_empty_def)
section \<open>The assembled access-token record\<close>

lemma generateAccessToken_expiration:
  assumes "generateAccessToken c this r authority env tok libState requestScopes obo = Inr a"
  shows "(a = None) = isEmpty (access_token r)"
    and "\<And>at. a = Some at \<Longrightarrow>
           at_expiresOn at
             = js_add (round_to_double (case libState of None \<Rightarrow> nowSeconds c | Some l \<Rightarrow> ts l))
                 (round_to_double (or_zero (expires_in r))) \<and>
           at_extendedExpiresOn at
             = js_add (at_expiresOn at) (round_to_double (or_zero (ext_expires_in r)))"
  using assms
  by (auto simp: generateAccessToken_def Let_def split: if_splits sum.splits)

lemma generateCacheRecord_access_token:
  assumes "generateCacheRecord c this r authority tok libState requestScopes obo = Inr cacheRecord"
  shows "generateAccessToken c this r authority (generateEnvironmentFromAuthority c authority)
           tok libState requestScopes obo = Inr (cachedAccessToken cacheRecord)"
  using assms
  by (auto simp: generateCacheRecord_def Let_def split: if_splits sum.splits option.splits)






section \<open>Result building\<close>

text \<open>
  C7, as stated, fails in its last clause: the access token is whatever the signer
  returns, and a signer that hands back the secret it is given makes the result's access
  token the raw stored secret.
\<close>

theorem signer_output_is_secret_counterexample:
  "at_tokenType (the (cachedAccessToken example_pop_record)) = Some (POP echo_collaborators) \<and>
   at_secret (the (cachedAccessToken example_pop_record)) = ''secret-at'' \<and>
   map_sum id accessToken
     (generateAuthenticationResult echo_collaborators example_pop_record False None None
        (Some ''GET'') (Some ''https://example.com/r''))
     = Inr ''secret-at''"
  by (simp add: generateAuthenticationResult_def accessTokenPart_def example_pop_record_def
        echo_collaborators_def example_collaborators_def truthy_def or_empty_def)

text \<open>
  C7, amended. For a cache record whose access-token entity has the proof-of-possession
  token type: when the resource request method or the resource request URI is absent (or
  empty), result building fails with the resource-request-parameters error. When both are
  supplied it does not; it returns a result whenever the scope set parses the stored
  scopes, and the access token of any result it returns is the signer's output over the
  stored secret, the method and the URI, whatever that output is.
\<close>

theorem pop_token_requires_resource_parameters:
  assumes "cachedAccessToken cacheRecord = Some at" and "at_tokenType at = Some (POP c)"
  shows "(\<not> truthy resourceRequestMethod \<or> \<not> truthy resourceRequestUri \<longrightarrow>
            generateAuthenticationResult c cacheRecord fromTokenCache tok requestState
              resourceRequestMethod resourceRequestUri
              = Inl ResourceRequestParametersRequiredError) \<and>
         (truthy resourceRequestMethod \<and> truthy resourceRequestUri \<longrightarrow>
            generateAuthenticationResult c cacheRecord fromTokenCache tok requestState
              resourceRequestMethod resourceRequestUri
              \<noteq> Inl ResourceRequestParametersRequiredError \<and>
            (\<forall>scopeSet. fromString c (at_target at) = Inr scopeSet \<longrightarrow>
               (\<exists>result. generateAuthenticationResult c cacheRecord fromTokenCache tok requestState
                            resourceRequestMethod resourceRequestUri = Inr result)) \<and>
            (\<forall>result. generateAuthenticationResult c cacheRecord fromTokenCache tok requestState
                         resourceRequestMethod resourceRequestUri = Inr result \<longrightarrow>
               accessToken result
                 = signPopToken c (at_secret at) (or_empty resourceRequestMethod)
                     (or_empty resourceRequestUri)))"
  using assms
  by (auto simp: generateAuthenticationResult_def accessTokenPart_def split: sum.splits)

theorem pop_token_requires_resource_parameters_witness:
  "generateAuthenticationResult example_collaborators example_pop_record
     False None None (Some ''GET'') None = Inl ResourceRequestParametersRequiredError \<and>
   (\<exists>result.
      generateAuthenticationResult example_collaborators example_pop_record
        False None None (Some ''GET'') (Some ''https://example.com/r'') = Inr result \<and>
      accessToken result = ''signed GET https://example.com/r secret-at'' \<and>
      accessToken result \<noteq> ''secret-at'')"
proof -
  let ?at = "the (cachedAccessToken example_pop_record)"
  have entity: "cachedAccessToken example_pop_record = Some ?at"
    by (simp add: example_pop_record_def)
  have pop: "at_tokenType ?at = Some (POP example_collaborators)"
    by (simp add: example_pop_record_def example_collaborators_fields)
  have secret: "at_secret ?at = ''secret-at''"
    by (simp add: example_pop_record_def)
  have parsed: "fromString example_collaborators (at_target ?at) = Inr (split_spaces ''user.read'')"
    by (simp add: example_pop_record_def example_collaborators_fields)
  note without = pop_token_requires_resource_parameters [OF entity pop,
      where fromTokenCache = False and tok = None and requestState = None
        and resourceRequestMethod = "Some ''GET''" and resourceRequestUri = None]
  note supplied = pop_token_requires_resource_parameters [OF entity pop,
      where fromTokenCache = False and tok = None and requestState = None
        and resourceRequestMethod = "Some ''GET''"
        and resourceRequestUri = "Some ''https://example.com/r''"]
  have fails: "generateAuthenticationResult example_collaborators example_pop_record
     False None None (Some ''GET'') None = Inl ResourceRequestParametersRequiredError"
    using without by (simp add: truthy_def)
  have both: "truthy (Some ''GET'') \<and> truthy (Some ''https://example.com/r'')"
    by (simp add: truthy_def)
  from supplied both parsed obtain result where
    built: "generateAuthenticationResult example_collaborators example_pop_record
        False None None (Some ''GET'') (Some ''https://example.com/r'') = Inr result"
    by blast
  from supplied both built have
    "accessToken result = signPopToken example_collaborators (at_secret ?at)
        (or_empty (Some ''GET'')) (or_empty (Some ''https://example.com/r''))"
    by blast
  then have "accessToken result = ''signed GET https://example.com/r secret-at''"
    by (simp add: secret example_collaborators_fields or_empty_def)
  with fails built show ?thesis by simp
qed

text \<open>
  C10. For a cache record without an access-token entity, result building succeeds: the
  access token is the empty string, the scopes are the empty list, \<open>expiresOn\<close> is
  \<open>null\<close>, \<open>extExpiresOn\<close> is absent and the token type is the empty string.
\<close>

theorem result_without_access_token:
  assumes "cachedAccessToken cacheRecord = None"
  shows "\<exists>result.
           generateAuthenticationResult c cacheRecord fromTokenCache tok requestState
             resourceRequestMethod resourceRequestUri = Inr result \<and>
           accessToken result = [] \<and> scopes result = [] \<and> expiresOn result = None \<and>
           extExpiresOn result = None \<and> tokenType result = []"
  using assms by (simp add: generateAuthenticationResult_def accessTokenPart_def)

theorem result_without_access_token_witness:
  "\<exists>result.
     generateAuthenticationResult example_collaborators
       \<lparr>cachedAccount = Some ''uid.utid'', cachedIdToken = None, cachedAccessToken = None,
        cachedRefreshToken = None, cachedAppMetadata = None\<rparr>
       True None None None None = Inr result \<and>
     accessToken result = [] \<and> scopes result = [] \<and> expiresOn result = None \<and>
     extExpiresOn result = None \<and> tokenType result = []"
  using
    result_without_access_token [where c = example_collaborators
      and cacheRecord = "\<lparr>cachedAccount = Some ''uid.utid'', cachedIdToken = None,
        cachedAccessToken = None, cachedRefreshToken = None, cachedAppMetadata = None\<rparr>"
      and fromTokenCache = True and tok = None and requestState = None
      and resourceRequestMethod = None and resourceRequestUri = None]
  by simp

section \<open>Where the errors come from\<close>

lemma generateAccountEntity_errors:
  "generateAccountEntity c this r t authority obo = Inl e \<Longrightarrow>
     e = ClientInfoEmptyError \<or> (\<exists>code. e = Propagated code)"
  by (auto simp: generateAccountEntity_def split: if_splits sum.splits)

lemma generateAccessToken_errors:
  "generateAccessToken c this r authority env tok libState requestScopes obo = Inl e \<Longrightarrow>
     \<exists>code. e = Propagated code"
  by (auto simp: generateAccessToken_def Let_def split: if_splits sum.splits)

lemma generateCacheRecord_error_source:
  assumes "generateCacheRecord c this r authority tok libState requestScopes obo = Inl e"
  shows "e = InvalidCacheEnvironmentError \<or>
         (\<exists>t. generateAccountEntity c this r t authority obo = Inl e) \<or>
         (\<exists>env. generateAccessToken c this r authority env tok libState requestScopes obo
                  = Inl e)"
  using assms
  by (auto simp: generateCacheRecord_def Let_def split: if_splits sum.splits option.splits)

lemma generateCacheRecord_errors:
  assumes "generateCacheRecord c this r authority tok libState requestScopes obo = Inl e"
  shows "e = InvalidCacheEnvironmentError \<or> e = ClientInfoEmptyError
           \<or> (\<exists>code. e = Propagated code)"
  using generateCacheRecord_error_source [OF assms]
    generateAccountEntity_errors generateAccessToken_errors
  by blast

lemma commitCacheRecord_errors:
  "commitCacheRecord c this cacheRecord refresh = (Inl e, this', calls) \<Longrightarrow>
     \<exists>code. e = Propagated code"
  by (auto simp: commitCacheRecord_def Let_def split: if_splits sum.splits)

lemma generateAuthenticationResult_errors:
  "generateAuthenticationResult c cacheRecord fromTokenCache tok requestState m u = Inl e \<Longrightarrow>
     e = ResourceRequestParametersRequiredError \<or> (\<exists>code. e = Propagated code)"
  by (auto simp: generateAuthenticationResult_def accessTokenPart_def
           split: if_splits sum.splits option.splits)

lemma parseCachedState_errors:
  "parseCachedState c cachedState = Inl e \<Longrightarrow> \<exists>code. e = Propagated code"
  by (auto simp: parseCachedState_def split: if_splits sum.splits)

text \<open>Once the identity token object exists, no later step raises the nonce error.\<close>

lemma handleServerTokenResponse_after_id_token:
  assumes "createIdTokenObj c r cachedNonce = Inr tok"
  shows "fst (handleServerTokenResponse c this r authority m u cachedNonce cachedState
                requestScopes obo refresh) \<noteq> Inl NonceMismatchError"
proof
  assume nonce: "fst (handleServerTokenResponse c this r authority m u cachedNonce cachedState
                requestScopes obo refresh) = Inl NonceMismatchError"
  then show False
    using assms
    by (auto simp: handleServerTokenResponse_def Let_def
             split: sum.splits prod.splits commit_result.splits
             dest!: parseCachedState_errors generateCacheRecord_errors
                    commitCacheRecord_errors generateAuthenticationResult_errors)
qed

section \<open>The nonce check\<close>

text \<open>
  C4, as stated, fails: with a cached nonce supplied and an identity token whose claims
  carry no nonce, the handler raises the nonce-mismatch error.
\<close>

theorem nonce_absent_in_token_counterexample:
  "truthy (id_token (example_response (Some ''token.without.nonce'') None)) \<and>
   extractTokenClaims example_collaborators ''token.without.nonce''
     = Inr (example_claims ''token.without.nonce'') \<and>
   nonce (example_claims ''token.without.nonce'') = None \<and>
   truthy (Some ''nonce-1'') \<and>
   fst (handleServerTokenResponse example_collaborators (example_handler False True [])
          (example_response (Some ''token.without.nonce'') None) (example_authority Aad ''AAD'')
          None None (Some ''nonce-1'') None None None None) = Inl NonceMismatchError"
  by (simp add: handleServerTokenResponse_def createIdTokenObj_def example_response_def
        example_claims_def example_collaborators_fields truthy_def or_empty_def)

text \<open>
  C4, amended. For a token response carrying an \<open>id_token\<close> whose claims parse, the handler
  fails with the nonce-mismatch error exactly when a cached nonce was supplied (non-empty)
  and the claims' nonce is not that very string, which includes claims that carry no
  nonce. When no cached nonce was supplied, no nonce error is raised.
\<close>

theorem nonce_mismatch_iff:
  assumes "truthy (id_token r)"
    and "extractTokenClaims c (or_empty (id_token r)) = Inr parsed"
  shows "(fst (handleServerTokenResponse c this r authority m u cachedNonce cachedState
                 requestScopes obo refresh) = Inl NonceMismatchError)
         = (truthy cachedNonce \<and> nonce parsed \<noteq> cachedNonce)"
proof (cases "truthy cachedNonce \<and> nonce parsed \<noteq> cachedNonce")
  case True
  with assms have "createIdTokenObj c r cachedNonce = Inl NonceMismatchError"
    by (simp add: createIdTokenObj_def)
  with True show ?thesis by (simp add: handleServerTokenResponse_def)
next
  case False
  with assms have "createIdTokenObj c r cachedNonce
      = Inr (Some \<lparr>rawToken = or_empty (id_token r), claims = parsed\<rparr>)"
    by (auto simp: createIdTokenObj_def)
  from handleServerTokenResponse_after_id_token [OF this] False show ?thesis by simp
qed

theorem nonce_mismatch_iff_witness:
  "fst (handleServerTokenResponse example_collaborators (example_handler False True [])
          (example_response (Some ''a.b.c'') None) (example_authority Aad ''AAD'')
          None None (Some ''nonce-2'') None None None None) = Inl NonceMismatchError \<and>
   fst (handleServerTokenResponse example_collaborators (example_handler False True [])
          (example_response (Some ''a.b.c'') None) (example_authority Aad ''AAD'')
          None None (Some ''nonce-1'') None None None None) \<noteq> Inl NonceMismatchError \<and>
   fst (handleServerTokenResponse example_collaborators (example_handler False True [])
          (example_response (Some ''token.without.nonce'') None) (example_authority Aad ''AAD'')
          None None None None None None None) \<noteq> Inl NonceMismatchError"
proof -
  have present: "truthy (id_token (example_response (Some raw) None)) = (raw \<noteq> [])" for raw
    by (simp add: example_response_def truthy_def)
  have parsed: "extractTokenClaims example_collaborators
                  (or_empty (id_token (example_response (Some raw) None)))
                = Inr (example_claims raw)" for raw
    by (simp add: example_response_def example_collaborators_fields or_empty_def)
  have "truthy (id_token (example_response (Some ''a.b.c'') None))"
    and "truthy (id_token (example_response (Some ''token.without.nonce'') None))"
    by (simp_all add: present)
  then show ?thesis
    using
      nonce_mismatch_iff [OF _ parsed [of "''a.b.c''"], where this = "example_handler False True []"
        and authority = "example_authority Aad ''AAD''" and m = None and u = None
        and cachedNonce = "Some ''nonce-2''" and cachedState = None and requestScopes = None
        and obo = None and refresh = None]
      nonce_mismatch_iff [OF _ parsed [of "''a.b.c''"], where this = "example_handler False True []"
        and authority = "example_authority Aad ''AAD''" and m = None and u = None
        and cachedNonce = "Some ''nonce-1''" and cachedState = None and requestScopes = None
        and obo = None and refresh = None]
      nonce_mismatch_iff [OF _ parsed [of "''token.without.nonce''"], where this = "example_handler False True []"
        and authority = "example_authority Aad ''AAD''" and m = None and u = None
        and cachedNonce = None and cachedState = None and requestScopes = None
        and obo = None and refresh = None]
    by (simp add: example_claims_def truthy_def)
qed

section \<open>The commit step inside the handler\<close>

lemma commitCacheRecord_calls:
  assumes "commitCacheRecord c this cacheRecord refresh = (out, this', calls)"
  shows "\<exists>mid.
           calls = (if persistencePlugin this \<and> serializableCache this
                    then CalledBeforeCacheAccess # mid @ [CalledAfterCacheAccess] else mid) \<and>
           CalledBeforeCacheAccess \<notin> set mid \<and> CalledAfterCacheAccess \<notin> set mid \<and>
           (out = Inr NoOp \<longrightarrow> CalledSaveCacheRecord \<notin> set mid) \<and>
           (out \<noteq> Inr NoOp \<longrightarrow> mid \<noteq> [] \<and> last mid = CalledSaveCacheRecord)"
  using assms
  by (auto simp: commitCacheRecord_def Let_def split: if_splits sum.splits option.splits)

lemma handleServerTokenResponse_commit:
  assumes "createIdTokenObj c r cachedNonce = Inr tok"
    and "parseCachedState c cachedState = Inr requestStateObj"
    and "generateCacheRecord c
           (this\<lparr>homeAccountIdentifier :=
                   generateHomeAccountId c (or_empty (client_info r)) (authorityType authority) tok\<rparr>)
           r authority tok (map_option libraryState requestStateObj) requestScopes obo
         = Inr cacheRecord"
  shows "handleServerTokenResponse c this r authority m u cachedNonce cachedState
           requestScopes obo refresh =
         (case commitCacheRecord c
                 (this\<lparr>homeAccountIdentifier :=
                         generateHomeAccountId c (or_empty (client_info r))
                           (authorityType authority) tok\<rparr>)
                 cacheRecord refresh of
            (Inl e, this2, calls) \<Rightarrow> (Inl e, this2, calls)
          | (Inr NoOp, this2, calls) \<Rightarrow> (Inr None, this2, calls)
          | (Inr Committed, this2, calls) \<Rightarrow>
              (case generateAuthenticationResult c cacheRecord False tok requestStateObj m u of
                 Inl e \<Rightarrow> (Inl e, this2, calls)
               | Inr result \<Rightarrow> (Inr (Some result), this2, calls)))"
  using assms by (simp add: handleServerTokenResponse_def Let_def)

lemma handleServerTokenResponse_reached:
  assumes "handleServerTokenResponse c this r authority m u cachedNonce cachedState
             requestScopes obo refresh = (out, this', calls)"
    and "calls \<noteq> [] \<or> (\<exists>res. out = Inr res)"
  shows "\<exists>tok requestStateObj cacheRecord.
           createIdTokenObj c r cachedNonce = Inr tok \<and>
           parseCachedState c cachedState = Inr requestStateObj \<and>
           generateCacheRecord c
             (this\<lparr>homeAccountIdentifier :=
                     generateHomeAccountId c (or_empty (client_info r)) (authorityType authority) tok\<rparr>)
             r authority tok (map_option libraryState requestStateObj) requestScopes obo
           = Inr cacheRecord"
  using assms
  by (auto simp: handleServerTokenResponse_def Let_def split: sum.splits)

text \<open>Three runs of the handler on the instance: a commit, the no-op, a failed write.\<close>

lemmas handler_defs =
  handleServerTokenResponse_def createIdTokenObj_def parseCachedState_def
  generateCacheRecord_def generateAccountEntity_def generateAccessToken_def selectScopes_def
  commitCacheRecord_def generateAuthenticationResult_def accessTokenPart_def
  example_collaborators_def example_handler_def example_response_def example_authority_def
  example_claims_def isEmpty_def truthy_def or_empty_def or_zero_def Let_def
  newDate_def toNumber_def round_to_double_safe

lemma example_run_committed:
  "handleServerTokenResponse example_collaborators (example_handler True True [''uid.utid''])
     (example_response (Some ''a.b.c'') (Some ''Bearer'')) (example_authority Aad ''AAD'')
     None None (Some ''nonce-1'') (Some ''st'') None None (Some True)
   = (Inr (Some
        \<lparr>uniqueId = ''oid-1'', tenantId = ''tenant-1'',
           scopes = [''user.read'', ''mail.read''],
           account = Some ''uid.utid'', idToken = ''a.b.c'',
           idTokenClaims =
             \<lparr>oid = Some ''oid-1'', sub = Some ''sub-1'',
                tid = Some ''tenant-1'', nonce = Some ''nonce-1''\<rparr>,
           accessToken = ''secret-at'', fromCache = False,
           expiresOn = Some (Date 4600000),
           extExpiresOn = Some (Date 5200000), familyId = ''1'',
           tokenType = ''Bearer'', userState = ''st''\<rparr>),
      \<lparr>clientId = ''client-1'',
         cacheStorage = (True, [''uid.utid'', ''uid.utid'']),
         homeAccountIdentifier = ''uid.utid'', serializableCache = True,
         persistencePlugin = True\<rparr>,
      [CalledBeforeCacheAccess, CalledGetAccount ''uid.utid'',
       CalledSaveCacheRecord, CalledAfterCacheAccess])"
  by (simp add: handler_defs)

lemma example_run_skipped:
  "handleServerTokenResponse example_collaborators (example_handler True True [])
     (example_response (Some ''a.b.c'') (Some ''Bearer'')) (example_authority Aad ''AAD'')
     None None (Some ''nonce-1'') (Some ''st'') None None (Some True)
   = (Inr None,
      \<lparr>clientId = ''client-1'', cacheStorage = (True, []),
         homeAccountIdentifier = ''uid.utid'', serializableCache = True,
         persistencePlugin = True\<rparr>,
      [CalledBeforeCacheAccess, CalledGetAccount ''uid.utid'', CalledAfterCacheAccess])"
  by (simp add: handler_defs)

lemma example_run_write_failed:
  "handleServerTokenResponse example_collaborators (example_handler True False [''uid.utid''])
     (example_response (Some ''a.b.c'') (Some ''Bearer'')) (example_authority Aad ''AAD'')
     None None (Some ''nonce-1'') (Some ''st'') None None (Some True)
   = (Inl (Propagated ''store_write_failed''),
      \<lparr>clientId = ''client-1'', cacheStorage = (False, [''uid.utid'']),
         homeAccountIdentifier = ''uid.utid'', serializableCache = True,
         persistencePlugin = True\<rparr>,
      [CalledBeforeCacheAccess, CalledGetAccount ''uid.utid'',
       CalledSaveCacheRecord, CalledAfterCacheAccess])"
  by (simp add: handler_defs)

section \<open>The persistence hooks\<close>

text \<open>
  C2. In every run of the handler in which the before-access hook was called, the
  after-access hook is called exactly once, and it is the last call of the run: the calls
  are the before-access hook, then the calls on the store, then the after-access hook.
  This holds for every outcome. When the outcome is the no-op of the refresh-race guard,
  no write was attempted; in every other outcome (a result, the store's error or a later
  error) the write is the call just before the after-access hook.
\<close>

theorem after_hook_runs_once:
  assumes run: "handleServerTokenResponse c this r authority m u cachedNonce cachedState
             requestScopes obo refresh = (out, this', calls)"
    and before: "CalledBeforeCacheAccess \<in> set calls"
  shows "count_list calls CalledAfterCacheAccess = 1 \<and>
         (\<exists>mid. calls = CalledBeforeCacheAccess # mid @ [CalledAfterCacheAccess] \<and>
                CalledBeforeCacheAccess \<notin> set mid \<and> CalledAfterCacheAccess \<notin> set mid \<and>
                (out = Inr None \<longrightarrow> CalledSaveCacheRecord \<notin> set mid) \<and>
                (out \<noteq> Inr None \<longrightarrow> mid \<noteq> [] \<and> last mid = CalledSaveCacheRecord))"
proof -
  from before have "calls \<noteq> []" by auto
  with handleServerTokenResponse_reached [OF run] obtain tok requestStateObj cacheRecord where
    reached: "createIdTokenObj c r cachedNonce = Inr tok"
      "parseCachedState c cachedState = Inr requestStateObj"
      "generateCacheRecord c
             (this\<lparr>homeAccountIdentifier :=
                     generateHomeAccountId c (or_empty (client_info r)) (authorityType authority) tok\<rparr>)
             r authority tok (map_option libraryState requestStateObj) requestScopes obo
           = Inr cacheRecord"
    by blast
  let ?this1 = "this\<lparr>homeAccountIdentifier :=
                     generateHomeAccountId c (or_empty (client_info r)) (authorityType authority) tok\<rparr>"
  obtain o2 this2 calls2 where
    commit: "commitCacheRecord c ?this1 cacheRecord refresh = (o2, this2, calls2)"
    by (cases "commitCacheRecord c ?this1 cacheRecord refresh") auto
  from run handleServerTokenResponse_commit [OF reached, of m u refresh] commit
  have same: "calls2 = calls" and noop: "(o2 = Inr NoOp) = (out = Inr None)"
    by (auto split: sum.splits commit_result.splits)
  from commitCacheRecord_calls [OF commit] same noop before obtain mid where
    mid: "calls = CalledBeforeCacheAccess # mid @ [CalledAfterCacheAccess]"
      "CalledBeforeCacheAccess \<notin> set mid" "CalledAfterCacheAccess \<notin> set mid"
      "out = Inr None \<longrightarrow> CalledSaveCacheRecord \<notin> set mid"
      "out \<noteq> Inr None \<longrightarrow> mid \<noteq> [] \<and> last mid = CalledSaveCacheRecord"
    by (auto split: if_splits)
  from mid(3) have "count_list mid CalledAfterCacheAccess = 0"
    by (simp add: count_list_0_iff)
  with mid(1) have "count_list calls CalledAfterCacheAccess = 1" by simp
  with mid show ?thesis by blast
qed

theorem after_hook_runs_once_witness:
  "count_list (snd (snd (handleServerTokenResponse example_collaborators
       (example_handler True True [''uid.utid''])
       (example_response (Some ''a.b.c'') (Some ''Bearer'')) (example_authority Aad ''AAD'')
       None None (Some ''nonce-1'') (Some ''st'') None None (Some True))))
     CalledAfterCacheAccess = 1 \<and>
   count_list (snd (snd (handleServerTokenResponse example_collaborators
       (example_handler True True [])
       (example_response (Some ''a.b.c'') (Some ''Bearer'')) (example_authority Aad ''AAD'')
       None None (Some ''nonce-1'') (Some ''st'') None None (Some True))))
     CalledAfterCacheAccess = 1 \<and>
   count_list (snd (snd (handleServerTokenResponse example_collaborators
       (example_handler True False [''uid.utid''])
       (example_response (Some ''a.b.c'') (Some ''Bearer'')) (example_authority Aad ''AAD'')
       None None (Some ''nonce-1'') (Some ''st'') None None (Some True))))
     CalledAfterCacheAccess = 1"
proof -
  have "CalledBeforeCacheAccess \<in> set [CalledBeforeCacheAccess, CalledGetAccount ''uid.utid'',
          CalledSaveCacheRecord, CalledAfterCacheAccess]"
    and "CalledBeforeCacheAccess \<in> set [CalledBeforeCacheAccess, CalledGetAccount ''uid.utid'',
          CalledAfterCacheAccess]"
    by simp_all
  then have "count_list [CalledBeforeCacheAccess, CalledGetAccount ''uid.utid'',
          CalledSaveCacheRecord, CalledAfterCacheAccess] CalledAfterCacheAccess = 1"
    and "count_list [CalledBeforeCacheAccess, CalledGetAccount ''uid.utid'',
          CalledAfterCacheAccess] CalledAfterCacheAccess = 1"
    using after_hook_runs_once [OF example_run_committed]
      after_hook_runs_once [OF example_run_skipped]
      after_hook_runs_once [OF example_run_write_failed]
    by blast+
  then show ?thesis
    by (simp only: example_run_committed example_run_skipped example_run_write_failed
          snd_conv simp_thms)
qed

section \<open>The refresh-race guard\<close>

text \<open>The commit step of a silent refresh whose record carries an account.\<close>

lemma commitCacheRecord_guard:
  assumes "cachedAccount cacheRecord = Some acct"
  shows "commitCacheRecord c this cacheRecord (Some True) =
           (let cacheContext = (persistencePlugin this \<and> serializableCache this);
                before = (if cacheContext then [CalledBeforeCacheAccess] else []);
                after = (if cacheContext then [CalledAfterCacheAccess] else []);
                lookup = [CalledGetAccount (generateAccountKey c acct)]
            in if getAccount c (cacheStorage this) (generateAccountKey c acct) = None
               then (Inr NoOp, this, before @ lookup @ after)
               else (case saveCacheRecord c (cacheStorage this) cacheRecord of
                       Inl code \<Rightarrow>
                         (Inl (Propagated code), this,
                          before @ lookup @ [CalledSaveCacheRecord] @ after)
                     | Inr written \<Rightarrow>
                         (Inr Committed, this\<lparr>cacheStorage := written\<rparr>,
                          before @ lookup @ [CalledSaveCacheRecord] @ after)))"
  using assms by (auto simp: commitCacheRecord_def Let_def split: sum.splits)

text \<open>
  C1, as stated, fails in its second half: in a silent refresh whose account is in the
  store, a proof-of-possession token without resource method and URI makes the handler
  write the record and then fail in result building; no populated result is returned.
\<close>

theorem guard_passed_result_fails_counterexample:
  "getAccount example_collaborators (cacheStorage (example_handler True True [''uid.utid'']))
     ''uid.utid'' \<noteq> None \<and>
   handleServerTokenResponse example_collaborators (example_handler True True [''uid.utid''])
     (example_response (Some ''a.b.c'') (Some ''pop'')) (example_authority Aad ''AAD'')
     None None (Some ''nonce-1'') (Some ''st'') None None (Some True)
   = (Inl ResourceRequestParametersRequiredError,
      \<lparr>clientId = ''client-1'',
         cacheStorage = (True, [''uid.utid'', ''uid.utid'']),
         homeAccountIdentifier = ''uid.utid'', serializableCache = True,
         persistencePlugin = True\<rparr>,
      [CalledBeforeCacheAccess, CalledGetAccount ''uid.utid'',
       CalledSaveCacheRecord, CalledAfterCacheAccess])"
  by (simp add: handler_defs)

text \<open>
  C1, amended. Take a run of the handler for a silent refresh
  (\<open>handlingRefreshTokenResponse\<close> is \<open>true\<close>) that derives a cache record carrying an
  account. If the store has no account under that account's key, the handler returns
  \<open>null\<close>, the store is as before and no write was attempted. If the store has one, the
  write is attempted with the record and the handler does not return \<open>null\<close>: when the
  store accepts the write, the handler's store is the written one and the handler returns
  the outcome of result building on the record, the populated result or the error of
  result building; when the store rejects the write, the store's error propagates.
\<close>

theorem refresh_race_guard:
  assumes tok: "createIdTokenObj c r cachedNonce = Inr tok"
    and rso: "parseCachedState c cachedState = Inr requestStateObj"
    and rec: "generateCacheRecord c
           (this\<lparr>homeAccountIdentifier :=
                   generateHomeAccountId c (or_empty (client_info r)) (authorityType authority) tok\<rparr>)
           r authority tok (map_option libraryState requestStateObj) requestScopes obo
         = Inr cacheRecord"
    and acct: "cachedAccount cacheRecord = Some acct"
  shows
    "(getAccount c (cacheStorage this) (generateAccountKey c acct) = None \<longrightarrow>
        (\<exists>this' calls.
           handleServerTokenResponse c this r authority m u cachedNonce cachedState
             requestScopes obo (Some True) = (Inr None, this', calls) \<and>
           cacheStorage this' = cacheStorage this \<and>
           CalledSaveCacheRecord \<notin> set calls)) \<and>
     (getAccount c (cacheStorage this) (generateAccountKey c acct) \<noteq> None \<longrightarrow>
        (\<exists>out this' calls.
           handleServerTokenResponse c this r authority m u cachedNonce cachedState
             requestScopes obo (Some True) = (out, this', calls) \<and>
           CalledSaveCacheRecord \<in> set calls \<and>
           out \<noteq> Inr None \<and>
           (case saveCacheRecord c (cacheStorage this) cacheRecord of
              Inl code \<Rightarrow> out = Inl (Propagated code) \<and> cacheStorage this' = cacheStorage this
            | Inr written \<Rightarrow>
                cacheStorage this' = written \<and>
                out = (case generateAuthenticationResult c cacheRecord False tok
                              requestStateObj m u of
                         Inl e \<Rightarrow> Inl e
                       | Inr result \<Rightarrow> Inr (Some result)))))"
  by (auto simp: handleServerTokenResponse_commit [OF tok rso rec]
        commitCacheRecord_guard [OF acct] Let_def split: sum.splits)

theorem refresh_race_guard_witness:
  "fst (handleServerTokenResponse example_collaborators (example_handler True True [])
          (example_response (Some ''a.b.c'') (Some ''Bearer'')) (example_authority Aad ''AAD'')
          None None (Some ''nonce-1'') (Some ''st'') None None (Some True)) = Inr None \<and>
   cacheStorage (fst (snd (handleServerTokenResponse example_collaborators
          (example_handler True True [])
          (example_response (Some ''a.b.c'') (Some ''Bearer'')) (example_authority Aad ''AAD'')
          None None (Some ''nonce-1'') (Some ''st'') None None (Some True)))) = (True, []) \<and>
   (\<exists>result.
      fst (handleServerTokenResponse example_collaborators
             (example_handler True True [''uid.utid''])
             (example_response (Some ''a.b.c'') (Some ''Bearer'')) (example_authority Aad ''AAD'')
             None None (Some ''nonce-1'') (Some ''st'') None None (Some True))
        = Inr (Some result) \<and>
      accessToken result = ''secret-at'') \<and>
   cacheStorage (fst (snd (handleServerTokenResponse example_collaborators
          (example_handler True True [''uid.utid''])
          (example_response (Some ''a.b.c'') (Some ''Bearer'')) (example_authority Aad ''AAD'')
          None None (Some ''nonce-1'') (Some ''st'') None None (Some True))))
     = (True, [''uid.utid'', ''uid.utid''])"
proof -
  let ?r = "example_response (Some ''a.b.c'') (Some ''Bearer'')"
  let ?tok = "Some \<lparr>rawToken = ''a.b.c'', claims = example_claims ''a.b.c''\<rparr>"
  let ?rso = "Some \<lparr>userRequestState = ''st'', libraryState = \<lparr>ts = 1000\<rparr>\<rparr>"
  have tok: "createIdTokenObj example_collaborators ?r (Some ''nonce-1'') = Inr ?tok"
    by (simp add: handler_defs)
  have rso: "parseCachedState example_collaborators (Some ''st'') = Inr ?rso"
    by (simp add: handler_defs)
  have "\<exists>cacheRecord.
          generateCacheRecord example_collaborators
            ((example_handler True True keys)\<lparr>homeAccountIdentifier :=
               generateHomeAccountId example_collaborators (or_empty (client_info ?r))
                 (authorityType (example_authority Aad ''AAD'')) ?tok\<rparr>)
            ?r (example_authority Aad ''AAD'') ?tok (map_option libraryState ?rso) None None
          = Inr cacheRecord \<and>
          cachedAccount cacheRecord = Some ''uid.utid''" for keys
    by (simp add: handler_defs)
  then obtain absent present where
    absent: "generateCacheRecord example_collaborators
            ((example_handler True True [])\<lparr>homeAccountIdentifier :=
               generateHomeAccountId example_collaborators (or_empty (client_info ?r))
                 (authorityType (example_authority Aad ''AAD'')) ?tok\<rparr>)
            ?r (example_authority Aad ''AAD'') ?tok (map_option libraryState ?rso) None None
          = Inr absent" "cachedAccount absent = Some ''uid.utid''"
    and present: "generateCacheRecord example_collaborators
            ((example_handler True True [''uid.utid''])\<lparr>homeAccountIdentifier :=
               generateHomeAccountId example_collaborators (or_empty (client_info ?r))
                 (authorityType (example_authority Aad ''AAD'')) ?tok\<rparr>)
            ?r (example_authority Aad ''AAD'') ?tok (map_option libraryState ?rso) None None
          = Inr present" "cachedAccount present = Some ''uid.utid''"
    by blast
  have missing: "getAccount example_collaborators (cacheStorage (example_handler True True []))
          (generateAccountKey example_collaborators ''uid.utid'') = None"
    by (simp add: example_collaborators_fields example_handler_def)
  have found: "getAccount example_collaborators
          (cacheStorage (example_handler True True [''uid.utid'']))
          (generateAccountKey example_collaborators ''uid.utid'') \<noteq> None"
    by (simp add: example_collaborators_fields example_handler_def)
  from refresh_race_guard [OF tok rso absent, of None None] missing
  have "fst (handleServerTokenResponse example_collaborators (example_handler True True [])
          ?r (example_authority Aad ''AAD'')
          None None (Some ''nonce-1'') (Some ''st'') None None (Some True)) = Inr None"
    by auto
  moreover
  from refresh_race_guard [OF tok rso present, of None None] found
  have "fst (handleServerTokenResponse example_collaborators
          (example_handler True True [''uid.utid'']) ?r (example_authority Aad ''AAD'')
          None None (Some ''nonce-1'') (Some ''st'') None None (Some True)) \<noteq> Inr None"
    by auto
  ultimately show ?thesis
    by (simp add: example_run_committed example_run_skipped)
qed

section \<open>From the response to the result\<close>

lemma createIdTokenObj_raw:
  assumes "createIdTokenObj c r cachedNonce = Inr tok"
  shows "(case tok of None \<Rightarrow> [] | Some t \<Rightarrow> rawToken t) = or_empty (id_token r)"
  using assms
  by (auto simp: createIdTokenObj_def truthy_def or_empty_def
           split: if_splits sum.splits option.splits)

lemma generateAccessToken_target:
  assumes "generateAccessToken c this r authority env tok libState requestScopes obo = Inr a"
    and "\<not> isEmpty (access_token r)"
  shows "\<exists>scopeSet at. selectScopes c r requestScopes = Inr scopeSet \<and> a = Some at \<and>
                       at_target at = printScopes c scopeSet"
  using assms
  by (auto simp: generateAccessToken_def Let_def split: if_splits sum.splits)

lemma generateAuthenticationResult_idToken:
  assumes "generateAuthenticationResult c cacheRecord fromTokenCache tok requestState m u
             = Inr result"
  shows "idToken result = (case tok of None \<Rightarrow> [] | Some t \<Rightarrow> rawToken t)"
  using assms
  by (auto simp: generateAuthenticationResult_def split: sum.splits prod.splits)

lemma generateAuthenticationResult_scopes:
  assumes "generateAuthenticationResult c cacheRecord fromTokenCache tok requestState m u
             = Inr result"
  shows "case cachedAccessToken cacheRecord of
           None \<Rightarrow> scopes result = []
         | Some at \<Rightarrow>
             (\<exists>scopeSet. fromString c (at_target at) = Inr scopeSet \<and>
                         scopes result = asArray c scopeSet)"
  using assms
  by (auto simp: generateAuthenticationResult_def accessTokenPart_def
           split: sum.splits prod.splits option.splits if_splits)

text \<open>
  C8, as stated, fails for the scopes: a response that has a \<open>scope\<close> field but no access
  token gives a record without access-token entity, and the result's scopes are empty.
\<close>

theorem scopes_without_access_token_counterexample:
  "scope ((example_response (Some ''a.b.c'') None)\<lparr>access_token := None\<rparr>)
     = Some ''user.read mail.read'' \<and>
   map_sum id (asArray example_collaborators)
     (fromString example_collaborators ''user.read mail.read'')
     = Inr [''user.read'', ''mail.read''] \<and>
   map_sum id (map_option scopes)
     (fst (handleServerTokenResponse example_collaborators (example_handler False True [])
             ((example_response (Some ''a.b.c'') None)\<lparr>access_token := None\<rparr>)
             (example_authority Aad ''AAD'') None None None None None None None))
     = Inr (Some [])"
  by (simp add: handler_defs)

text \<open>
  C8, amended. When the handler assembles a cache record from a token response and builds
  a result from it, the result's identity token is the response's raw \<open>id_token\<close> string
  (the empty string when there is none). When the response carries an access token, the
  result's scopes are the array of the scope set taken from the response's own \<open>scope\<close>
  field when it is present, and from the request's scopes otherwise; without an access
  token the result's scopes are empty. The scope set is a parameter: the statement holds
  for every scope set whose parser reads back what it printed for the set at hand.
\<close>

theorem scopes_and_id_token_round_trip:
  assumes run: "handleServerTokenResponse c this r authority m u cachedNonce cachedState
                  requestScopes obo refresh = (Inr (Some result), this', calls)"
    and law: "\<And>scopeSet parsed.
                selectScopes c r requestScopes = Inr scopeSet \<Longrightarrow>
                fromString c (printScopes c scopeSet) = Inr parsed \<Longrightarrow>
                asArray c parsed = asArray c scopeSet"
  shows "idToken result = or_empty (id_token r) \<and>
         (\<not> isEmpty (access_token r) \<longrightarrow>
            (\<exists>scopeSet.
               (if truthy (scope r) then fromString c (or_empty (scope r))
                else newScopeSet c (case requestScopes of None \<Rightarrow> [] | Some xs \<Rightarrow> xs))
                 = Inr scopeSet \<and>
               scopes result = asArray c scopeSet)) \<and>
         (isEmpty (access_token r) \<longrightarrow> scopes result = [])"
proof -
  from handleServerTokenResponse_reached [OF run] obtain tok requestStateObj cacheRecord where
    reached: "createIdTokenObj c r cachedNonce = Inr tok"
      "parseCachedState c cachedState = Inr requestStateObj"
      "generateCacheRecord c
             (this\<lparr>homeAccountIdentifier :=
                     generateHomeAccountId c (or_empty (client_info r)) (authorityType authority) tok\<rparr>)
             r authority tok (map_option libraryState requestStateObj) requestScopes obo
           = Inr cacheRecord"
    by blast
  from run handleServerTokenResponse_commit [OF reached, of m u refresh]
  have built: "generateAuthenticationResult c cacheRecord False tok requestStateObj m u
                 = Inr result"
    by (auto split: sum.splits prod.splits commit_result.splits)
  have raw: "idToken result = or_empty (id_token r)"
    using generateAuthenticationResult_idToken [OF built] createIdTokenObj_raw [OF reached(1)]
    by simp
  have "\<exists>scopeSet. selectScopes c r requestScopes = Inr scopeSet \<and>
                    scopes result = asArray c scopeSet"
    if token: "\<not> isEmpty (access_token r)"
  proof -
    from generateAccessToken_target [OF generateCacheRecord_access_token [OF reached(3)] token]
    obtain scopeSet at where
      stored: "selectScopes c r requestScopes = Inr scopeSet"
        "cachedAccessToken cacheRecord = Some at" "at_target at = printScopes c scopeSet"
      by blast
    from generateAuthenticationResult_scopes [OF built] stored(2,3) obtain parsed where
      parsed: "fromString c (printScopes c scopeSet) = Inr parsed"
        "scopes result = asArray c parsed"
      by auto
    from law [OF stored(1) parsed(1)] parsed(2) stored(1) show ?thesis by simp
  qed
  moreover have "scopes result = []" if "isEmpty (access_token r)"
    using generateAccessToken_expiration(1) [OF generateCacheRecord_access_token [OF reached(3)]]
      generateAuthenticationResult_scopes [OF built] that
    by simp
  ultimately show ?thesis using raw by (simp add: selectScopes_def)
qed

theorem scopes_and_id_token_round_trip_witness:
  "(\<exists>result.
      fst (handleServerTokenResponse example_collaborators
             (example_handler True True [''uid.utid''])
             (example_response (Some ''a.b.c'') (Some ''Bearer'')) (example_authority Aad ''AAD'')
             None None (Some ''nonce-1'') (Some ''st'') None None (Some True))
        = Inr (Some result) \<and>
      idToken result = ''a.b.c'' \<and>
      scopes result = [''user.read'', ''mail.read'']) \<and>
   (\<exists>result.
      fst (handleServerTokenResponse example_collaborators (example_handler False True [])
             ((example_response None None)\<lparr>access_token := None\<rparr>)
             (example_authority Aad ''AAD'') None None None None None None None)
        = Inr (Some result) \<and>
      idToken result = [] \<and>
      scopes result = [])"
proof -
  let ?r = "example_response (Some ''a.b.c'') (Some ''Bearer'')"
  let ?bare = "(example_response None None)\<lparr>access_token := None\<rparr>"
  have law: "selectScopes example_collaborators ?r None = Inr scopeSet \<Longrightarrow>
             fromString example_collaborators (printScopes example_collaborators scopeSet)
               = Inr parsed \<Longrightarrow>
             asArray example_collaborators parsed = asArray example_collaborators scopeSet"
    for scopeSet parsed
    by (auto simp: selectScopes_def example_collaborators_fields example_response_def
          truthy_def or_empty_def)
  have bare_law: "selectScopes example_collaborators ?bare None = Inr scopeSet \<Longrightarrow>
             fromString example_collaborators (printScopes example_collaborators scopeSet)
               = Inr parsed \<Longrightarrow>
             asArray example_collaborators parsed = asArray example_collaborators scopeSet"
    for scopeSet parsed
    by (auto simp: selectScopes_def example_collaborators_fields example_response_def
          truthy_def or_empty_def)
  from example_run_committed obtain result this' calls where
    run: "handleServerTokenResponse example_collaborators
            (example_handler True True [''uid.utid'']) ?r (example_authority Aad ''AAD'')
            None None (Some ''nonce-1'') (Some ''st'') None None (Some True)
          = (Inr (Some result), this', calls)"
    by blast
  have "\<exists>result this' calls.
          handleServerTokenResponse example_collaborators (example_handler False True [])
            ?bare (example_authority Aad ''AAD'') None None None None None None None
          = (Inr (Some result), this', calls)"
    by (simp add: handler_defs)
  then obtain bare this'' calls' where
    bare_run: "handleServerTokenResponse example_collaborators (example_handler False True [])
            ?bare (example_authority Aad ''AAD'') None None None None None None None
          = (Inr (Some bare), this'', calls')"
    by blast
  from scopes_and_id_token_round_trip [OF run law]
  have "idToken result = or_empty (id_token ?r)"
    and "\<not> isEmpty (access_token ?r) \<longrightarrow>
           (\<exists>scopeSet.
              (if truthy (scope ?r) then fromString example_collaborators (or_empty (scope ?r))
               else newScopeSet example_collaborators (case None of None \<Rightarrow> [] | Some xs \<Rightarrow> xs))
                = Inr scopeSet \<and>
              scopes result = asArray example_collaborators scopeSet)"
    by simp_all
  then have first: "idToken result = ''a.b.c''"
    "scopes result = [''user.read'', ''mail.read'']"
    by (auto simp: example_response_def example_collaborators_fields isEmpty_def truthy_def
          or_empty_def)
  from scopes_and_id_token_round_trip [OF bare_run bare_law]
  have "idToken bare = or_empty (id_token ?bare)"
    and "isEmpty (access_token ?bare) \<longrightarrow> scopes bare = []"
    by simp_all
  then have second: "idToken bare = []" "scopes bare = []"
    by (auto simp: example_response_def isEmpty_def truthy_def or_empty_def)
  from run bare_run first second show ?thesis by simp
qed

end
